theory Spec2Isabelle
  imports Main "HOL-Library.Word"
begin

section \<open>The fixed-size, type-erased array of \<^verbatim>\<open>src/arrays/array.c\<close>\<close>

subsection \<open>Machine types\<close>

text \<open>
  \<^verbatim>\<open>size_t\<close> is an unsigned 64-bit integer (LP64): multiplication wraps and division
  truncates. A byte is an 8-bit word.
\<close>

type_synonym size_t = "64 word"
type_synonym byte = "8 word"

definition SIZE_MAX :: size_t where
  "SIZE_MAX = 18446744073709551615"

text \<open>
  Behaviour the C standard leaves undefined is a fault of the model, never a status:
  an integer division by zero, an access through a pointer that does not designate
  enough live bytes, and a \<^verbatim>\<open>free\<close> of a pointer that is not a live allocation.
\<close>

datatype fault = DivByZero | BadAccess | BadFree

subsection \<open>The allocator and the byte copies (libc)\<close>

text \<open>
  The heap is a table of allocations. A pointer returned by the allocator is the index of
  its block in the table, so a new block never aliases an older one; \<open>None\<close> in the table
  is a block that has been freed, and a null pointer is \<open>None\<close> as a pointer value.
  \<open>avail\<close> is the number of bytes the allocator can still hand out: it decides when
  \<^verbatim>\<open>calloc\<close> returns null.
\<close>

type_synonym pointer = "nat option"

record heap =
  blocks :: "byte list option list"
  avail :: nat

definition block :: "heap \<Rightarrow> nat \<Rightarrow> byte list option" where
  "block h p = (if p < length (blocks h) then blocks h ! p else None)"

text \<open>
  \<^verbatim>\<open>calloc(nmemb, sz)\<close>: null when \<open>nmemb * sz\<close> is not representable or not
  available, else a fresh block of \<open>nmemb * sz\<close> zero bytes.
\<close>

definition calloc :: "heap \<Rightarrow> size_t \<Rightarrow> size_t \<Rightarrow> pointer \<times> heap" where
  "calloc h nmemb sz =
     (let total = unat nmemb * unat sz in
      if unat SIZE_MAX < total \<or> avail h < total then (None, h)
      else (Some (length (blocks h)),
            h\<lparr>blocks := blocks h @ [Some (replicate total 0)],
              avail := avail h - total\<rparr>))"

text \<open>\<^verbatim>\<open>free(ptr)\<close>: nothing for a null pointer, else \<open>ptr\<close> must be a live allocation.\<close>

definition free :: "heap \<Rightarrow> pointer \<Rightarrow> fault + heap" where
  "free h ptr =
     (case ptr of
        None \<Rightarrow> Inr h
      | Some p \<Rightarrow>
          (case block h p of
             None \<Rightarrow> Inl BadFree
           | Some bs \<Rightarrow>
               Inr (h\<lparr>blocks := (blocks h)[p := None], avail := avail h + length bs\<rparr>)))"

text \<open>
  \<^verbatim>\<open>memcpy(dest, src, n)\<close> on lists of bytes: \<open>n\<close> bytes of \<open>src\<close> replace the \<open>n\<close>
  bytes of \<open>dest\<close> that start at offset \<open>off\<close>; everything else in \<open>dest\<close> stays.
\<close>

definition overwrite :: "byte list \<Rightarrow> nat \<Rightarrow> byte list \<Rightarrow> nat \<Rightarrow> byte list" where
  "overwrite dest off src n = take off dest @ take n src @ drop (off + n) dest"

text \<open>
  The copy of \<^verbatim>\<open>array_set\<close>: the destination is \<open>off\<close> bytes into the block \<open>base\<close>
  points to, the source is a buffer of the caller (\<open>None\<close> when the pointer is not valid).
\<close>

definition memcpy_to_block ::
  "heap \<Rightarrow> pointer \<Rightarrow> nat \<Rightarrow> byte list option \<Rightarrow> nat \<Rightarrow> fault + heap" where
  "memcpy_to_block h base off src n =
     (case base of
        None \<Rightarrow> Inl BadAccess
      | Some p \<Rightarrow>
          (case block h p of
             None \<Rightarrow> Inl BadAccess
           | Some bs \<Rightarrow>
               (case src of
                  None \<Rightarrow> Inl BadAccess
                | Some v \<Rightarrow>
                    if length bs < off + n \<or> length v < n then Inl BadAccess
                    else Inr (h\<lparr>blocks := (blocks h)[p := Some (overwrite bs off v n)]\<rparr>))))"

text \<open>
  The copy of \<^verbatim>\<open>array_get\<close>: the source is \<open>off\<close> bytes into the block, the destination
  is a buffer of the caller, already known to be present.
\<close>

definition memcpy_from_block ::
  "heap \<Rightarrow> pointer \<Rightarrow> nat \<Rightarrow> byte list \<Rightarrow> nat \<Rightarrow> fault + byte list" where
  "memcpy_from_block h base off dest n =
     (case base of
        None \<Rightarrow> Inl BadAccess
      | Some p \<Rightarrow>
          (case block h p of
             None \<Rightarrow> Inl BadAccess
           | Some bs \<Rightarrow>
               if length bs < off + n \<or> length dest < n then Inl BadAccess
               else Inr (overwrite dest 0 (drop off bs) n)))"

subsection \<open>The container\<close>

text \<open>
  \<^verbatim>\<open>typedef struct { void *head; size_t length; size_t elem_size; } Array;\<close>
  The field \<^verbatim>\<open>length\<close> is \<open>length_arr\<close> here, since \<open>length\<close> is the length of a list.
\<close>

record Array =
  head :: pointer
  length_arr :: size_t
  elem_size :: size_t

datatype status_t =
    S_OK
  | S_ERR_SELF_IS_NULL
  | S_ERR_RETURN_PARAMS_IS_NULL
  | S_ERR_OUT_OF_MEMORY
  | S_ERR_OUT_OF_RANGE
  | S_ERR_ELEMENT_SIZE_MISMATCH

text \<open>
  Every operation takes the heap and \<^verbatim>\<open>self\<close> (\<open>None\<close> for a null pointer, else the
  struct it points to) and returns its status together with the struct and the heap as
  it leaves them, or a fault. The buffers \<^verbatim>\<open>value_in\<close>, \<^verbatim>\<open>value_out\<close> and \<^verbatim>\<open>length\<close>
  belong to the caller and lie outside the blocks of the heap.
\<close>

definition array_init ::
  "heap \<Rightarrow> Array option \<Rightarrow> size_t \<Rightarrow> size_t \<Rightarrow> fault + (status_t \<times> Array option \<times> heap)" where
  "array_init h self len esize =
     (case self of
        None \<Rightarrow> Inr (S_ERR_SELF_IS_NULL, None, h)
      | Some a \<Rightarrow>
          if esize = 0 then Inl DivByZero
          else
            let max_length = SIZE_MAX div esize in
            if len = 0 \<or> max_length < len then Inr (S_ERR_OUT_OF_RANGE, Some a, h)
            else
              let (p, h') = calloc h len esize;
                  a' = a\<lparr>head := p\<rparr>
              in if p = None then Inr (S_ERR_OUT_OF_MEMORY, Some a', h')
                 else Inr (S_OK, Some (a'\<lparr>length_arr := len, elem_size := esize\<rparr>), h'))"

definition array_free ::
  "heap \<Rightarrow> Array option \<Rightarrow> fault + (status_t \<times> Array option \<times> heap)" where
  "array_free h self =
     (case self of
        None \<Rightarrow> Inr (S_ERR_SELF_IS_NULL, None, h)
      | Some a \<Rightarrow>
          (case free h (head a) of
             Inl f \<Rightarrow> Inl f
           | Inr h' \<Rightarrow>
               Inr (S_OK, Some (a\<lparr>head := None, length_arr := 0, elem_size := 0\<rparr>), h')))"

definition array_set ::
  "heap \<Rightarrow> Array option \<Rightarrow> size_t \<Rightarrow> byte list option \<Rightarrow> size_t
     \<Rightarrow> fault + (status_t \<times> Array option \<times> heap)" where
  "array_set h self index value_in value_size =
     (case self of
        None \<Rightarrow> Inr (S_ERR_SELF_IS_NULL, None, h)
      | Some a \<Rightarrow>
          if length_arr a \<le> index then Inr (S_ERR_OUT_OF_RANGE, Some a, h)
          else if elem_size a \<noteq> value_size then Inr (S_ERR_ELEMENT_SIZE_MISMATCH, Some a, h)
          else
            (case memcpy_to_block h (head a) (unat (index * elem_size a)) value_in
                    (unat value_size) of
               Inl f \<Rightarrow> Inl f
             | Inr h' \<Rightarrow> Inr (S_OK, Some a, h')))"

text \<open>
  \<^verbatim>\<open>value_out\<close> is the caller's buffer (\<open>None\<close> for a null pointer); the result holds
  the buffer as the call leaves it.
\<close>

definition array_get ::
  "heap \<Rightarrow> Array option \<Rightarrow> size_t \<Rightarrow> byte list option \<Rightarrow> size_t
     \<Rightarrow> fault + (status_t \<times> byte list option \<times> Array option \<times> heap)" where
  "array_get h self index value_out value_size =
     (case self of
        None \<Rightarrow> Inr (S_ERR_SELF_IS_NULL, value_out, None, h)
      | Some a \<Rightarrow>
          (case value_out of
             None \<Rightarrow> Inr (S_ERR_RETURN_PARAMS_IS_NULL, None, Some a, h)
           | Some dest \<Rightarrow>
               if length_arr a \<le> index then Inr (S_ERR_OUT_OF_RANGE, Some dest, Some a, h)
               else if elem_size a \<noteq> value_size
               then Inr (S_ERR_ELEMENT_SIZE_MISMATCH, Some dest, Some a, h)
               else
                 (case memcpy_from_block h (head a) (unat (index * elem_size a)) dest
                         (unat value_size) of
                    Inl f \<Rightarrow> Inl f
                  | Inr dest' \<Rightarrow> Inr (S_OK, Some dest', Some a, h))))"

text \<open>
  \<^verbatim>\<open>length\<close> points to a \<^verbatim>\<open>size_t\<close> of the caller (\<open>None\<close> for a null pointer); the
  function has no undefined behaviour, so it has no fault.
\<close>

definition array_len ::
  "heap \<Rightarrow> Array option \<Rightarrow> size_t option \<Rightarrow> status_t \<times> size_t option \<times> Array option \<times> heap" where
  "array_len h self len =
     (case self of
        None \<Rightarrow> (S_ERR_SELF_IS_NULL, len, None, h)
      | Some a \<Rightarrow>
          (case len of
             None \<Rightarrow> (S_ERR_RETURN_PARAMS_IS_NULL, None, Some a, h)
           | Some _ \<Rightarrow> (S_OK, Some (length_arr a), Some a, h)))"

subsection \<open>Reading results\<close>

text \<open>The status an operation returned, \<open>None\<close> when it faulted instead of returning.\<close>

definition status_of :: "fault + (status_t \<times> 'a) \<Rightarrow> status_t option" where
  "status_of r = (case r of Inl _ \<Rightarrow> None | Inr (st, _) \<Rightarrow> Some st)"

text \<open>
  An instance is allocated when its handle designates a live block of exactly
  \<open>length * elem_size\<close> bytes, with both fields positive and a product that does not
  wrap.
\<close>

definition allocated :: "heap \<Rightarrow> Array \<Rightarrow> bool" where
  "allocated h a =
     (length_arr a \<noteq> 0 \<and> elem_size a \<noteq> 0 \<and> length_arr a \<le> SIZE_MAX div elem_size a \<and>
      (case head a of
         None \<Rightarrow> False
       | Some p \<Rightarrow>
           (case block h p of
              None \<Rightarrow> False
            | Some bs \<Rightarrow> length bs = unat (length_arr a) * unat (elem_size a))))"

text \<open>The instances and heaps of the concrete scenarios.\<close>

definition empty_array :: Array where
  "empty_array = \<lparr>head = None, length_arr = 0, elem_size = 0\<rparr>"

definition heap0 :: heap where
  "heap0 = \<lparr>blocks = [], avail = 1024\<rparr>"

definition array3 :: Array where
  "array3 = \<lparr>head = Some 0, length_arr = 3, elem_size = 4\<rparr>"

definition heap3 :: heap where
  "heap3 = \<lparr>blocks = [Some (replicate 12 0)], avail = 1012\<rparr>"

definition full_heap3 :: heap where
  "full_heap3 = \<lparr>blocks = [Some (replicate 12 0)], avail = 0\<rparr>"

definition exhausted_heap :: heap where
  "exhausted_heap = \<lparr>blocks = [], avail = 0\<rparr>"



definition array10 :: Array where
  "array10 = \<lparr>head = Some 0, length_arr = 10, elem_size = 4\<rparr>"

definition heap10 :: heap where
  "heap10 = \<lparr>blocks = [Some (replicate 40 0)], avail = 984\<rparr>"



subsection \<open>The checking order of the specification\<close>


section \<open>Size arithmetic\<close>

lemma unat_SIZE_MAX: "unat SIZE_MAX = 18446744073709551615"
  by (simp add: SIZE_MAX_def)

lemma max_length_iff:
  assumes "esize \<noteq> 0"
  shows "(len \<le> SIZE_MAX div esize) = (unat len * unat esize \<le> unat SIZE_MAX)"
proof -
  have pos: "0 < unat esize" using assms by (simp add: unat_gt_0)
  have "(len \<le> SIZE_MAX div esize) = (unat len \<le> unat SIZE_MAX div unat esize)"
    by (simp add: word_le_nat_alt unat_div)
  also have "\<dots> = (unat len * unat esize \<le> unat SIZE_MAX)"
    using pos by (simp add: less_eq_div_iff_mult_less_eq)
  finally show ?thesis .
qed

lemma unat_mult_no_wrap:
  fixes x y :: size_t
  assumes "unat x * unat y \<le> unat SIZE_MAX"
  shows "unat (x * y) = unat x * unat y"
proof -
  have "unat x * unat y < 2 ^ 64" using assms by (simp add: unat_SIZE_MAX)
  then show ?thesis by (simp add: unat_word_ariths)
qed

section \<open>Initialisation\<close>

lemma calloc_fits:
  assumes "unat nmemb * unat sz \<le> unat SIZE_MAX"
  shows "calloc h nmemb sz =
     (if avail h < unat nmemb * unat sz then (None, h)
      else (Some (length (blocks h)),
            h\<lparr>blocks := blocks h @ [Some (replicate (unat nmemb * unat sz) 0)],
              avail := avail h - unat nmemb * unat sz\<rparr>))"
  using assms by (simp add: calloc_def Let_def)

text \<open>What \<^verbatim>\<open>array_init\<close> does on a present instance, branch by branch.\<close>

lemma array_init_present:
  assumes "esize \<noteq> 0"
  shows "array_init h (Some a) len esize =
     (if len = 0 \<or> SIZE_MAX div esize < len then Inr (S_ERR_OUT_OF_RANGE, Some a, h)
      else if avail h < unat len * unat esize
      then Inr (S_ERR_OUT_OF_MEMORY, Some (a\<lparr>head := None\<rparr>), h)
      else Inr (S_OK,
             Some (a\<lparr>head := Some (length (blocks h)), length_arr := len, elem_size := esize\<rparr>),
             h\<lparr>blocks := blocks h @ [Some (replicate (unat len * unat esize) 0)],
               avail := avail h - unat len * unat esize\<rparr>))"
proof (cases "len = 0 \<or> SIZE_MAX div esize < len")
  case True
  then show ?thesis using assms by (simp add: array_init_def)
next
  case False
  then have "len \<le> SIZE_MAX div esize" by (simp add: not_less)
  then have fits: "unat len * unat esize \<le> unat SIZE_MAX"
    using assms by (simp add: max_length_iff)
  show ?thesis using assms False
    by (simp add: array_init_def calloc_fits [OF fits])
qed

text \<open>
  C5. On a present instance and with a positive element size, \<^verbatim>\<open>array_init\<close> returns,
  and its status is \<^verbatim>\<open>S_ERR_OUT_OF_RANGE\<close> exactly when the length is zero or exceeds
  \<^verbatim>\<open>SIZE_MAX / elem_size\<close>; whenever it returns \<^verbatim>\<open>S_OK\<close> the byte count
  \<open>length * elem_size\<close> is at most \<^verbatim>\<open>SIZE_MAX\<close> and the 64-bit product does not wrap.
\<close>

theorem array_init_out_of_range_iff:
  assumes "esize \<noteq> 0"
  shows "\<exists>st a' h'. array_init h (Some a) len esize = Inr (st, a', h') \<and>
           (st = S_ERR_OUT_OF_RANGE \<longleftrightarrow> len = 0 \<or> SIZE_MAX div esize < len) \<and>
           (st = S_OK \<longrightarrow> unat len * unat esize \<le> unat SIZE_MAX \<and>
                           unat (len * esize) = unat len * unat esize)"
proof (cases "len = 0 \<or> SIZE_MAX div esize < len")
  case True
  then show ?thesis using assms by (simp add: array_init_present)
next
  case False
  then have "len \<le> SIZE_MAX div esize" by (simp add: not_less)
  then have fits: "unat len * unat esize \<le> unat SIZE_MAX"
    using assms by (simp add: max_length_iff)
  show ?thesis using assms False fits
    by (simp add: array_init_present unat_mult_no_wrap)
qed

text \<open>
  The witness takes a length whose product with the element size would wrap to 0
  (\<open>2 ^ 62 * 4 = 2 ^ 64\<close>), which is refused, and the ten 4-byte elements of scenario A,
  which are accepted.
\<close>

theorem array_init_out_of_range_iff_witness:
  "(4 :: size_t) \<noteq> 0 \<and>
   array_init heap0 (Some empty_array) 4611686018427387904 4 =
     Inr (S_ERR_OUT_OF_RANGE, Some empty_array, heap0) \<and>
   array_init heap0 (Some empty_array) 10 4 = Inr (S_OK, Some array10, heap10) \<and>
   unat (10 :: size_t) * unat (4 :: size_t) \<le> unat SIZE_MAX"
proof -
  have esize: "(4 :: size_t) \<noteq> 0" by simp
  have ok: "array_init heap0 (Some empty_array) 10 4 = Inr (S_OK, Some array10, heap10)"
    by (simp add: array_init_present SIZE_MAX_def heap0_def empty_array_def array10_def
          heap10_def)
  show ?thesis
    using esize ok
      array_init_out_of_range_iff [OF esize, of heap0 empty_array 4611686018427387904]
      array_init_out_of_range_iff [OF esize, of heap0 empty_array 10]
    by (simp add: array_init_present SIZE_MAX_def)
qed

text \<open>
  C9. \<^verbatim>\<open>array_init\<close> divides \<^verbatim>\<open>SIZE_MAX\<close> by \<^verbatim>\<open>elem_size\<close> before it has looked at
  \<^verbatim>\<open>elem_size\<close>: on a present instance a zero element size is a division by zero
  whatever the length, no status is returned; with a positive element size the call always
  returns. Only the null check on \<^verbatim>\<open>self\<close> comes before the division.
\<close>

theorem array_init_elem_size_zero:
  "array_init h (Some a) len 0 = Inl DivByZero \<and>
   status_of (array_init h (Some a) len 0) = None \<and>
   (esize \<noteq> 0 \<longrightarrow> (\<exists>r. array_init h (Some a) len esize = Inr r)) \<and>
   array_init h None len 0 = Inr (S_ERR_SELF_IS_NULL, None, h)"
  by (simp add: array_init_present) (simp add: array_init_def status_of_def)

theorem array_init_elem_size_zero_witness:
  "array_init heap0 (Some empty_array) 0 0 = Inl DivByZero \<and>
   (\<exists>r. array_init heap0 (Some empty_array) 3 4 = Inr r)"
  using array_init_elem_size_zero [of heap0 empty_array 0 4]
    array_init_elem_size_zero [of heap0 empty_array 3 4]
  by simp

lemma block_calloc_new:
  "block (h\<lparr>blocks := blocks h @ [x], avail := n\<rparr>) p =
     (if p = length (blocks h) then x else block h p)"
  by (simp add: block_def nth_append)


section \<open>Element access\<close>













section \<open>The order of the checks\<close>

text \<open>
  C3, as stated: a call with \<open>value_size \<noteq> elem_size\<close> on a present, allocated instance
  returns \<^verbatim>\<open>S_ERR_ELEMENT_SIZE_MISMATCH\<close> whether or not the index is in range. It does
  not: on the instance of three 4-byte elements, \<^verbatim>\<open>array_set\<close> at index 3 with an 8-byte
  value returns \<^verbatim>\<open>S_ERR_OUT_OF_RANGE\<close>, since the range is checked before the size.
\<close>

theorem size_mismatch_counterexample:
  "allocated heap3 array3 \<and> (8 :: size_t) \<noteq> elem_size array3 \<and>
   array_set heap3 (Some array3) 3 (Some [1, 2, 3, 4, 5, 6, 7, 8]) 8 =
     Inr (S_ERR_OUT_OF_RANGE, Some array3, heap3) \<and>
   status_of (array_set heap3 (Some array3) 3 (Some [1, 2, 3, 4, 5, 6, 7, 8]) 8)
     \<noteq> Some S_ERR_ELEMENT_SIZE_MISMATCH"
  by (simp add: allocated_def block_def heap3_def array3_def SIZE_MAX_def array_set_def
        status_of_def)

text \<open>
  C3, amended. With \<open>value_size \<noteq> elem_size\<close> on a present instance, \<^verbatim>\<open>array_set\<close>,
  and \<^verbatim>\<open>array_get\<close> with a present destination, return \<^verbatim>\<open>S_ERR_ELEMENT_SIZE_MISMATCH\<close>
  when the index is in range and \<^verbatim>\<open>S_ERR_OUT_OF_RANGE\<close> when it is not; nothing is
  changed.
\<close>

theorem size_mismatch_after_range:
  assumes "value_size \<noteq> elem_size a"
  shows "array_set h (Some a) index value_in value_size =
           Inr (if length_arr a \<le> index then S_ERR_OUT_OF_RANGE
                else S_ERR_ELEMENT_SIZE_MISMATCH, Some a, h) \<and>
         array_get h (Some a) index (Some dest) value_size =
           Inr (if length_arr a \<le> index then S_ERR_OUT_OF_RANGE
                else S_ERR_ELEMENT_SIZE_MISMATCH, Some dest, Some a, h)"
  using assms by (auto simp: array_set_def array_get_def)

theorem size_mismatch_after_range_witness:
  "(8 :: size_t) \<noteq> elem_size array3 \<and>
   array_set heap3 (Some array3) 2 (Some [1, 2, 3, 4, 5, 6, 7, 8]) 8 =
     Inr (S_ERR_ELEMENT_SIZE_MISMATCH, Some array3, heap3) \<and>
   array_get heap3 (Some array3) 2 (Some [0, 0, 0, 0, 0, 0, 0, 0]) 8 =
     Inr (S_ERR_ELEMENT_SIZE_MISMATCH, Some [0, 0, 0, 0, 0, 0, 0, 0], Some array3, heap3) \<and>
   array_get heap3 (Some array3) 3 (Some [0, 0, 0, 0, 0, 0, 0, 0]) 8 =
     Inr (S_ERR_OUT_OF_RANGE, Some [0, 0, 0, 0, 0, 0, 0, 0], Some array3, heap3)"
proof -
  have ne: "(8 :: size_t) \<noteq> elem_size array3" by (simp add: array3_def)
  have inside: "\<not> length_arr array3 \<le> 2" by (simp add: array3_def)
  have outside: "length_arr array3 \<le> 3" by (simp add: array3_def)
  show ?thesis
    using ne inside outside size_mismatch_after_range [OF ne, of heap3 2]
      size_mismatch_after_range [OF ne, of heap3 3]
    by simp
qed









section \<open>Failure and the state\<close>

text \<open>
  C6, as stated: no operation mutates the instance when it returns an error, and for
  every \<open>index \<ge> length\<close> both \<^verbatim>\<open>array_get\<close> and \<^verbatim>\<open>array_set\<close> return
  \<^verbatim>\<open>S_ERR_OUT_OF_RANGE\<close>. Neither holds as stated. \<^verbatim>\<open>array_init\<close> stores the result of
  \<^verbatim>\<open>calloc\<close> in \<^verbatim>\<open>head\<close> before it is tested, so on an allocated instance of three 4-byte
  elements and an allocator with nothing left the call returns \<^verbatim>\<open>S_ERR_OUT_OF_MEMORY\<close>
  with \<^verbatim>\<open>head\<close> set to null. And \<^verbatim>\<open>array_get\<close> at index 3 of three elements with a null
  destination returns \<^verbatim>\<open>S_ERR_RETURN_PARAMS_IS_NULL\<close>, as the test
  \<^verbatim>\<open>test_array_bounds_check\<close> asserts.
\<close>

theorem error_mutates_counterexample:
  "allocated full_heap3 array3 \<and>
   array_init full_heap3 (Some array3) 2 4 =
     Inr (S_ERR_OUT_OF_MEMORY, Some \<lparr>head = None, length_arr = 3, elem_size = 4\<rparr>, full_heap3) \<and>
   \<lparr>head = None, length_arr = 3, elem_size = 4\<rparr> \<noteq> array3 \<and>
   length_arr array3 \<le> 3 \<and>
   array_get heap3 (Some array3) 3 None 4 =
     Inr (S_ERR_RETURN_PARAMS_IS_NULL, None, Some array3, heap3)"
  by (simp add: allocated_def block_def full_heap3_def array3_def SIZE_MAX_def
        array_init_present array_get_def)

lemma array_set_error:
  assumes "array_set h self index value_in value_size = Inr (st, self', h')" and "st \<noteq> S_OK"
  shows "self' = self \<and> h' = h"
  using assms
  by (auto simp: array_set_def split: option.splits if_splits sum.splits)

lemma array_get_pure:
  assumes "array_get h self index value_out value_size = Inr (st, out', self', h')"
  shows "self' = self \<and> h' = h \<and> (st \<noteq> S_OK \<longrightarrow> out' = value_out)"
  using assms
  by (auto simp: array_get_def split: option.splits if_splits sum.splits)

lemma array_len_pure:
  assumes "array_len h self len = (st, len', self', h')"
  shows "self' = self \<and> h' = h \<and> (st \<noteq> S_OK \<longrightarrow> len' = len)"
  using assms
  by (auto simp: array_len_def split: option.splits)

lemma array_free_error:
  assumes "array_free h self = Inr (st, self', h')" and "st \<noteq> S_OK"
  shows "self' = self \<and> h' = h"
  using assms
  by (auto simp: array_free_def split: option.splits sum.splits)

lemma array_init_error:
  assumes "array_init h self len esize = Inr (st, self', h')" and "st \<noteq> S_OK"
  shows "h' = h \<and> map_option length_arr self' = map_option length_arr self \<and>
         map_option elem_size self' = map_option elem_size self \<and>
         (st \<noteq> S_ERR_OUT_OF_MEMORY \<or> map_option head self = Some None \<longrightarrow> self' = self)"
proof (cases self)
  case None
  then show ?thesis using assms by (simp add: array_init_def)
next
  case (Some a)
  then have "esize \<noteq> 0" using assms(1) by (auto simp: array_init_def)
  then show ?thesis using assms Some
    by (auto simp: array_init_present split: if_splits)
qed

lemma out_of_range_unchanged:
  assumes "length_arr a \<le> index"
  shows "array_set h (Some a) index value_in value_size = Inr (S_ERR_OUT_OF_RANGE, Some a, h) \<and>
         array_get h (Some a) index (Some dest) value_size =
           Inr (S_ERR_OUT_OF_RANGE, Some dest, Some a, h)"
  using assms by (simp add: array_set_def array_get_def)

lemma array_set_whole_element:
  assumes "array_set h self index value_in value_size = Inr (S_OK, self', h')"
  shows "self' = self \<and>
         (\<exists>a p bs v. self = Some a \<and> head a = Some p \<and> block h p = Some bs \<and>
            value_in = Some v \<and> unat value_size \<le> length v \<and>
            unat (index * elem_size a) + unat value_size \<le> length bs \<and>
            avail h' = avail h \<and>
            blocks h' = (blocks h)[p := Some (take (unat (index * elem_size a)) bs @
                                              take (unat value_size) v @
                                              drop (unat (index * elem_size a) + unat value_size) bs)])"
  using assms
  by (auto simp: array_set_def memcpy_to_block_def overwrite_def not_less
           split: option.splits if_splits sum.splits)

text \<open>
  C6, amended. \<^verbatim>\<open>array_set\<close> and \<^verbatim>\<open>array_free\<close> leave the instance and the heap as they
  were whenever they return an error; \<^verbatim>\<open>array_get\<close> and \<^verbatim>\<open>array_len\<close> never change the
  instance or the heap, and leave the caller's output as it was on an error.
  \<^verbatim>\<open>array_init\<close>, when it returns an error, leaves the heap, \<^verbatim>\<open>length\<close> and
  \<^verbatim>\<open>elem_size\<close> as they were, and the whole instance as it was when the error is not
  \<^verbatim>\<open>S_ERR_OUT_OF_MEMORY\<close> or when \<^verbatim>\<open>head\<close> was null before the call. For every
  \<open>index \<ge> length\<close> on a present instance \<^verbatim>\<open>array_set\<close> returns \<^verbatim>\<open>S_ERR_OUT_OF_RANGE\<close>,
  and so does \<^verbatim>\<open>array_get\<close> with a present destination, with nothing changed. An
  \<^verbatim>\<open>array_set\<close> that returns \<^verbatim>\<open>S_OK\<close> has replaced exactly the \<open>value_size\<close> bytes at
  the element's offset by the first \<open>value_size\<close> bytes of the value: the copy is whole
  or absent.
\<close>

theorem error_leaves_state:
  "(array_set h self index value_in value_size = Inr (st, self', h') \<and> st \<noteq> S_OK \<longrightarrow>
      self' = self \<and> h' = h) \<and>
   (array_get h self index value_out value_size = Inr (st, out', self', h') \<longrightarrow>
      self' = self \<and> h' = h \<and> (st \<noteq> S_OK \<longrightarrow> out' = value_out)) \<and>
   (array_len h self len_out = (st, len', self', h') \<longrightarrow>
      self' = self \<and> h' = h \<and> (st \<noteq> S_OK \<longrightarrow> len' = len_out)) \<and>
   (array_free h self = Inr (st, self', h') \<and> st \<noteq> S_OK \<longrightarrow> self' = self \<and> h' = h) \<and>
   (array_init h self len esize = Inr (st, self', h') \<and> st \<noteq> S_OK \<longrightarrow>
      h' = h \<and> map_option length_arr self' = map_option length_arr self \<and>
      map_option elem_size self' = map_option elem_size self \<and>
      (st \<noteq> S_ERR_OUT_OF_MEMORY \<or> map_option head self = Some None \<longrightarrow> self' = self)) \<and>
   (length_arr a \<le> index \<longrightarrow>
      array_set h (Some a) index value_in value_size = Inr (S_ERR_OUT_OF_RANGE, Some a, h) \<and>
      array_get h (Some a) index (Some dest) value_size =
        Inr (S_ERR_OUT_OF_RANGE, Some dest, Some a, h)) \<and>
   (array_set h self index value_in value_size = Inr (S_OK, self', h') \<longrightarrow>
      self' = self \<and>
      (\<exists>a p bs v. self = Some a \<and> head a = Some p \<and> block h p = Some bs \<and>
         value_in = Some v \<and> unat value_size \<le> length v \<and>
         unat (index * elem_size a) + unat value_size \<le> length bs \<and>
         avail h' = avail h \<and>
         blocks h' = (blocks h)[p := Some (take (unat (index * elem_size a)) bs @
                                           take (unat value_size) v @
                                           drop (unat (index * elem_size a) + unat value_size) bs)]))"
  using array_set_error [of h self index value_in value_size st self' h']
    array_get_pure [of h self index value_out value_size st out' self' h']
    array_len_pure [of h self len_out st len' self' h']
    array_free_error [of h self st self' h']
    array_init_error [of h self len esize st self' h']
    out_of_range_unchanged [of a index h value_in value_size dest]
    array_set_whole_element [of h self index value_in value_size self' h']
  by blast

text \<open>
  Four inputs: every operation on a null handle; a set and a get at index 3 of three
  elements; an initialisation of an unallocated instance that runs out of memory; a set
  at index 1 that succeeds.
\<close>

theorem error_leaves_state_witness:
  "array_set heap3 None 0 None 4 = Inr (S_ERR_SELF_IS_NULL, None, heap3) \<and>
   array_get heap3 None 0 None 4 = Inr (S_ERR_SELF_IS_NULL, None, None, heap3) \<and>
   array_len heap3 None None = (S_ERR_SELF_IS_NULL, None, None, heap3) \<and>
   array_free heap3 None = Inr (S_ERR_SELF_IS_NULL, None, heap3) \<and>
   array_init heap3 None 2 4 = Inr (S_ERR_SELF_IS_NULL, None, heap3) \<and>
   length_arr array3 \<le> 3 \<and>
   array_set heap3 (Some array3) 3 (Some [1, 0, 0, 0]) 4 =
     Inr (S_ERR_OUT_OF_RANGE, Some array3, heap3) \<and>
   array_get heap3 (Some array3) 3 (Some [9, 9, 9, 9]) 4 =
     Inr (S_ERR_OUT_OF_RANGE, Some [9, 9, 9, 9], Some array3, heap3) \<and>
   array_init exhausted_heap (Some empty_array) 2 4 =
     Inr (S_ERR_OUT_OF_MEMORY, Some empty_array, exhausted_heap) \<and>
   array_set heap3 (Some array3) 1 (Some [1, 2, 3, 4]) 4 =
     Inr (S_OK, Some array3,
          \<lparr>blocks = [Some (replicate 4 0 @ [1, 2, 3, 4] @ replicate 4 0)], avail = 1012\<rparr>)"
proof -
  have null: "array_set heap3 None 0 None 4 = Inr (S_ERR_SELF_IS_NULL, None, heap3)"
    "array_get heap3 None 0 None 4 = Inr (S_ERR_SELF_IS_NULL, None, None, heap3)"
    "array_len heap3 None None = (S_ERR_SELF_IS_NULL, None, None, heap3)"
    "array_free heap3 None = Inr (S_ERR_SELF_IS_NULL, None, heap3)"
    "array_init heap3 None 2 4 = Inr (S_ERR_SELF_IS_NULL, None, heap3)"
    by (simp_all add: array_set_def array_get_def array_len_def array_free_def array_init_def)
  have range: "length_arr array3 \<le> 3" by (simp add: array3_def)
  have oom: "array_init exhausted_heap (Some empty_array) 2 4 =
     Inr (S_ERR_OUT_OF_MEMORY, Some empty_array, exhausted_heap)"
    by (simp add: array_init_present SIZE_MAX_def exhausted_heap_def empty_array_def)
  have ok: "array_set heap3 (Some array3) 1 (Some [1, 2, 3, 4]) 4 =
     Inr (S_OK, Some array3,
          \<lparr>blocks = [Some (replicate 4 0 @ [1, 2, 3, 4] @ replicate 4 0)], avail = 1012\<rparr>)"
    by (simp add: array_set_def memcpy_to_block_def block_def overwrite_def heap3_def array3_def
          word_le_nat_alt)
  show ?thesis
    using null range oom ok
      error_leaves_state [where h = heap3 and self = None and a = array3
        and index = 0 and value_in = None and value_size = 4
        and dest = "[]" and st = S_ERR_SELF_IS_NULL and self' = None
        and h' = heap3 and value_out = None and out' = None and len_out = None
        and len' = None and len = 2 and esize = 4]
      error_leaves_state [where h = heap3 and self = "Some array3" and a = array3
        and index = 3 and value_in = "Some [1, 0, 0, 0]" and value_size = 4
        and dest = "[9, 9, 9, 9]" and st = S_ERR_OUT_OF_RANGE and self' = "Some array3"
        and h' = heap3 and value_out = None and out' = None and len_out = None
        and len' = None and len = 0 and esize = 4]
      error_leaves_state [where h = exhausted_heap and self = "Some empty_array"
        and a = empty_array and index = 0 and value_in = None and value_size = 0
        and dest = "[]" and st = S_ERR_OUT_OF_MEMORY and self' = "Some empty_array"
        and h' = exhausted_heap and value_out = None and out' = None and len_out = None
        and len' = None and len = 2 and esize = 4]
      error_leaves_state [where h = heap3 and self = "Some array3" and a = array3
        and index = 1 and value_in = "Some [1, 2, 3, 4]" and value_size = 4
        and dest = "[9, 9, 9, 9]" and st = S_OK and self' = "Some array3"
        and h' = "\<lparr>blocks = [Some (replicate 4 0 @ [1, 2, 3, 4] @ replicate 4 0)],
                   avail = 1012\<rparr>"
        and value_out = None and out' = None and len_out = None
        and len' = None and len = 0 and esize = 4]
    by (simp add: array3_def)
qed

text \<open>
  C10. On an instance whose handle designates a live block, \<^verbatim>\<open>array_init\<close> with a length
  and element size that pass the range check neither reads the handle nor releases the
  block, which stays live with its contents. When the allocation fails the call returns
  \<^verbatim>\<open>S_ERR_OUT_OF_MEMORY\<close> with the handle already overwritten by null, so the instance
  has changed and the heap has not; from the instance with a null handle the same failure
  returns the instance as it was. When the allocation succeeds the handle is overwritten
  by the new, zero-filled block, which is not the prior one.
\<close>

theorem array_init_on_allocated:
  assumes "len \<noteq> 0" and "esize \<noteq> 0" and "len \<le> SIZE_MAX div esize"
    and "head a = Some p" and "block h p = Some bs"
  shows "\<exists>st a' h'. array_init h (Some a) len esize = Inr (st, Some a', h') \<and>
           block h' p = Some bs \<and>
           (if avail h < unat len * unat esize
            then st = S_ERR_OUT_OF_MEMORY \<and> a' = a\<lparr>head := None\<rparr> \<and> a' \<noteq> a \<and> h' = h \<and>
                 array_init h (Some (a\<lparr>head := None\<rparr>)) len esize =
                   Inr (S_ERR_OUT_OF_MEMORY, Some (a\<lparr>head := None\<rparr>), h)
            else st = S_OK \<and>
                 a' = \<lparr>head = Some (length (blocks h)), length_arr = len, elem_size = esize\<rparr> \<and>
                 head a' \<noteq> head a \<and>
                 block h' (length (blocks h)) = Some (replicate (unat len * unat esize) 0))"
proof -
  have range: "\<not> (len = 0 \<or> SIZE_MAX div esize < len)"
    using assms(1,3) by (simp add: not_less)
  have p: "p < length (blocks h)"
    using assms(5) by (simp add: block_def split: if_splits)
  have changed: "a\<lparr>head := None\<rparr> \<noteq> a"
  proof
    assume "a\<lparr>head := None\<rparr> = a"
    then have "head (a\<lparr>head := None\<rparr>) = head a" by simp
    then show False using assms(4) by simp
  qed
  show ?thesis
  proof (cases "avail h < unat len * unat esize")
    case True
    then show ?thesis
      using assms(2,5) range changed by (simp add: array_init_present)
  next
    case False
    then show ?thesis
      using assms(2,4,5) range p by (simp add: array_init_present block_calloc_new)
  qed
qed

text \<open>
  The allocated instance of three 4-byte elements, initialised again for two elements:
  once with nothing left to allocate, once with room.
\<close>

theorem array_init_on_allocated_witness:
  "array_init full_heap3 (Some array3) 2 4 =
     Inr (S_ERR_OUT_OF_MEMORY, Some \<lparr>head = None, length_arr = 3, elem_size = 4\<rparr>, full_heap3) \<and>
   (\<exists>h'. array_init heap3 (Some array3) 2 4 =
            Inr (S_OK, Some \<lparr>head = Some 1, length_arr = 2, elem_size = 4\<rparr>, h') \<and>
          block h' 0 = Some (replicate 12 0))"
proof -
  have len: "(2 :: size_t) \<noteq> 0" and esize: "(4 :: size_t) \<noteq> 0" by simp_all
  have range: "(2 :: size_t) \<le> SIZE_MAX div 4" by (simp add: SIZE_MAX_def)
  have hd: "head array3 = Some 0" by (simp add: array3_def)
  have full: "block full_heap3 0 = Some (replicate 12 0)"
    by (simp add: block_def full_heap3_def)
  have live: "block heap3 0 = Some (replicate 12 0)"
    by (simp add: block_def heap3_def)
  have no_room: "avail full_heap3 < unat (2 :: size_t) * unat (4 :: size_t)"
    by (simp add: full_heap3_def)
  have room: "\<not> avail heap3 < unat (2 :: size_t) * unat (4 :: size_t)"
    and one: "length (blocks heap3) = 1"
    by (simp_all add: heap3_def)
  have upd: "array3\<lparr>head := None\<rparr> = \<lparr>head = None, length_arr = 3, elem_size = 4\<rparr>"
    by (simp add: array3_def)
  show ?thesis
    using array_init_on_allocated [OF len esize range hd full]
      array_init_on_allocated [OF len esize range hd live] no_room room one upd
    by auto
qed

section \<open>Release and length\<close>

lemma free_live:
  assumes "block h p = Some bs"
  shows "free h (Some p) = Inr (h\<lparr>blocks := (blocks h)[p := None], avail := avail h + length bs\<rparr>)"
    and "block (h\<lparr>blocks := (blocks h)[p := None], avail := avail h + length bs\<rparr>) p = None"
  using assms by (simp_all add: free_def block_def split: if_splits)

text \<open>
  C7. Release is idempotent. On a present instance whose handle is null (unallocated) or
  designates a live block (allocated), \<^verbatim>\<open>array_free\<close> returns \<^verbatim>\<open>S_OK\<close>, sets \<^verbatim>\<open>length\<close>
  and \<^verbatim>\<open>elem_size\<close> to zero and the handle to null; the block, if there was one, is no
  longer live, and the heap is untouched if there was none. A second \<^verbatim>\<open>array_free\<close> also
  returns \<^verbatim>\<open>S_OK\<close> and changes nothing: the length is 0 both times.
\<close>

theorem array_free_idempotent:
  assumes "head a = None \<or> (\<exists>p bs. head a = Some p \<and> block h p = Some bs)"
  shows "\<exists>h'. array_free h (Some a) =
                Inr (S_OK, Some \<lparr>head = None, length_arr = 0, elem_size = 0\<rparr>, h') \<and>
              (\<forall>p. head a = Some p \<longrightarrow> block h' p = None) \<and>
              (head a = None \<longrightarrow> h' = h) \<and>
              array_free h' (Some \<lparr>head = None, length_arr = 0, elem_size = 0\<rparr>) =
                Inr (S_OK, Some \<lparr>head = None, length_arr = 0, elem_size = 0\<rparr>, h')"
proof (cases "head a")
  case None
  then show ?thesis by (simp add: array_free_def free_def)
next
  case (Some p)
  then obtain bs where "block h p = Some bs" using assms by auto
  then show ?thesis using Some free_live [of h p bs]
    by (simp add: array_free_def) (simp add: free_def)
qed

theorem array_free_idempotent_witness:
  "array_free heap3 (Some array3) =
     Inr (S_OK, Some \<lparr>head = None, length_arr = 0, elem_size = 0\<rparr>,
          \<lparr>blocks = [None], avail = 1024\<rparr>) \<and>
   array_free \<lparr>blocks = [None], avail = 1024\<rparr>
       (Some \<lparr>head = None, length_arr = 0, elem_size = 0\<rparr>) =
     Inr (S_OK, Some \<lparr>head = None, length_arr = 0, elem_size = 0\<rparr>,
          \<lparr>blocks = [None], avail = 1024\<rparr>) \<and>
   array_free heap0 (Some empty_array) =
     Inr (S_OK, Some \<lparr>head = None, length_arr = 0, elem_size = 0\<rparr>, heap0)"
proof -
  have live: "head array3 = None \<or> (\<exists>p bs. head array3 = Some p \<and> block heap3 p = Some bs)"
    by (simp add: array3_def heap3_def block_def)
  have null: "head empty_array = None \<or>
      (\<exists>p bs. head empty_array = Some p \<and> block heap0 p = Some bs)"
    by (simp add: empty_array_def)
  have first: "array_free heap3 (Some array3) =
     Inr (S_OK, Some \<lparr>head = None, length_arr = 0, elem_size = 0\<rparr>,
          \<lparr>blocks = [None], avail = 1024\<rparr>)"
    by (simp add: array_free_def free_def block_def heap3_def array3_def)
  show ?thesis
    using first array_free_idempotent [OF live] array_free_idempotent [OF null]
    by (auto simp: empty_array_def)
qed

text \<open>
  C8. On a present instance and a present output, \<^verbatim>\<open>array_len\<close> returns \<^verbatim>\<open>S_OK\<close>, writes
  the \<^verbatim>\<open>length\<close> field to the output and leaves the instance and the heap as they were.
  After an \<^verbatim>\<open>array_init\<close> that returned \<^verbatim>\<open>S_OK\<close> for length \<open>len\<close> it writes \<open>len\<close>; after
  any \<^verbatim>\<open>array_free\<close> that returned, which is then with \<^verbatim>\<open>S_OK\<close>, it writes 0.
\<close>

theorem array_len_reads_length:
  "array_len h (Some a) (Some out) = (S_OK, Some (length_arr a), Some a, h) \<and>
   (array_init h self len esize = Inr (S_OK, self1, h1) \<longrightarrow>
      array_len h1 self1 (Some out) = (S_OK, Some len, self1, h1)) \<and>
   (array_free h (Some a) = Inr (st, self2, h2) \<longrightarrow>
      st = S_OK \<and> array_len h2 self2 (Some out) = (S_OK, Some 0, self2, h2))"
proof -
  have rd: "array_len h (Some a) (Some out) = (S_OK, Some (length_arr a), Some a, h)" for h a
    by (simp add: array_len_def)
  have init: "array_len h1 self1 (Some out) = (S_OK, Some len, self1, h1)"
    if ok: "array_init h self len esize = Inr (S_OK, self1, h1)"
  proof (cases self)
    case None
    then show ?thesis using ok by (simp add: array_init_def)
  next
    case (Some a0)
    then have "esize \<noteq> 0" using ok by (auto simp: array_init_def)
    then obtain a1 where "self1 = Some a1" and "length_arr a1 = len"
      using ok Some by (auto simp: array_init_present split: if_splits)
    then show ?thesis by (simp add: rd)
  qed
  have fr: "st = S_OK \<and> array_len h2 self2 (Some out) = (S_OK, Some 0, self2, h2)"
    if "array_free h (Some a) = Inr (st, self2, h2)"
    using that by (auto simp: array_free_def rd split: sum.splits)
  show ?thesis using rd init fr by blast
qed

text \<open>Length 10 after the initialisation of scenario A, 0 after a release.\<close>

theorem array_len_reads_length_witness:
  "array_init heap0 (Some empty_array) 10 4 = Inr (S_OK, Some array10, heap10) \<and>
   array_len heap10 (Some array10) (Some 0) = (S_OK, Some 10, Some array10, heap10) \<and>
   array_free heap0 (Some empty_array) = Inr (S_OK, Some empty_array, heap0) \<and>
   array_len heap0 (Some empty_array) (Some 77) = (S_OK, Some 0, Some empty_array, heap0)"
proof -
  have init: "array_init heap0 (Some empty_array) 10 4 = Inr (S_OK, Some array10, heap10)"
    by (simp add: array_init_present SIZE_MAX_def heap0_def empty_array_def array10_def
          heap10_def)
  have fr: "array_free heap0 (Some empty_array) = Inr (S_OK, Some empty_array, heap0)"
    by (simp add: array_free_def free_def empty_array_def)
  show ?thesis
    using init fr
      array_len_reads_length [where h = heap0 and self = "Some empty_array" and len = 10
        and esize = 4 and ?self1.0 = "Some array10" and ?h1.0 = heap10 and out = 0
        and a = empty_array and st = S_OK and ?self2.0 = "Some empty_array" and ?h2.0 = heap0]
      array_len_reads_length [where h = heap0 and self = "Some empty_array" and len = 10
        and esize = 4 and ?self1.0 = "Some array10" and ?h1.0 = heap10 and out = 77
        and a = empty_array and st = S_OK and ?self2.0 = "Some empty_array" and ?h2.0 = heap0]
    by (simp add: empty_array_def)
qed

end
